theory Spec2Isabelle
  imports Complex_Main
begin

section \<open>JavaScript values and JSON text\<close>

text \<open>
  The memory subsystem (\<^verbatim>\<open>events.ts\<close>, \<^verbatim>\<open>session.ts\<close>, \<^verbatim>\<open>working-context.ts\<close>,
  \<^verbatim>\<open>processors.ts\<close>) is embedded as pure functions over records and datatypes.
  Conventions of the embedding:
  \<^item> a TypeScript \<^verbatim>\<open>number\<close> that counts events is a \<open>nat\<close>; one that holds a
    timestamp, a threshold or a token amount is an \<open>int\<close>; a latency, which the code
    divides, and a token budget are \<open>rat\<close>. Arithmetic is exact (no rounding, no
    \<^verbatim>\<open>NaN\<close>, no infinities);
  \<^item> a string is a \<open>string\<close>, one \<open>char\<close> per UTF-16 code unit (code units below 256);
  \<^item> an optional property is an \<open>option\<close>, \<open>None\<close> standing for an absent or
    \<^verbatim>\<open>undefined\<close> property;
  \<^item> \<^verbatim>\<open>Date.now()\<close> and the random suffix of a session id are parameters;
  \<^item> a method that mutates \<^verbatim>\<open>this\<close> and returns it takes the object and returns the
    updated one; a \<^verbatim>\<open>throw\<close> is the \<open>Inl\<close> of a sum.
\<close>

text \<open>Values of type \<^verbatim>\<open>unknown\<close> (free-form metadata, tool arguments, tool results).\<close>

datatype jsval =
    JUndefined
  | JNull
  | JBool bool
  | JNum int
  | JStr string
  | JArr "jsval list"
  | JObj "(string \<times> jsval) list"

type_synonym jsrecord = "(string \<times> jsval) list"

text \<open>Decimal rendering of a number, as a template literal or \<^verbatim>\<open>JSON.stringify\<close> prints an
  integer.\<close>

fun nat_to_string :: "nat \<Rightarrow> string" where
  "nat_to_string n =
     (if n < 10 then [''0123456789'' ! n]
      else nat_to_string (n div 10) @ [''0123456789'' ! (n mod 10)])"

definition int_to_string :: "int \<Rightarrow> string" where
  "int_to_string i = (if i < 0 then CHR ''-'' # nat_to_string (nat (- i)) else nat_to_string (nat i))"

text \<open>\<^verbatim>\<open>Array.prototype.join\<close> on strings.\<close>

fun join :: "string \<Rightarrow> string list \<Rightarrow> string" where
  "join sep [] = []"
| "join sep [x] = x"
| "join sep (x # y # ys) = x @ sep @ join sep (y # ys)"

text \<open>\<^verbatim>\<open>JSON.stringify\<close>: the quoting of a string (ECMAScript QuoteJSONString) and the
  serialisation of a value. A property whose value is \<^verbatim>\<open>undefined\<close> is left out of an
  object, an \<^verbatim>\<open>undefined\<close> array element is written \<^verbatim>\<open>null\<close>, and \<^verbatim>\<open>undefined\<close> itself
  has no JSON text (\<open>None\<close>).\<close>

definition hex_digit :: "nat \<Rightarrow> char" where
  "hex_digit n = ''0123456789abcdef'' ! (n mod 16)"

definition quote_char :: "char \<Rightarrow> string" where
  "quote_char c =
     (if c = CHR 0x08 then [CHR 0x5C, CHR ''b'']
      else if c = CHR 0x09 then [CHR 0x5C, CHR ''t'']
      else if c = CHR 0x0A then [CHR 0x5C, CHR ''n'']
      else if c = CHR 0x0C then [CHR 0x5C, CHR ''f'']
      else if c = CHR 0x0D then [CHR 0x5C, CHR ''r'']
      else if c = CHR 0x22 then [CHR 0x5C, CHR 0x22]
      else if c = CHR 0x5C then [CHR 0x5C, CHR 0x5C]
      else if (of_char c :: nat) < 32
        then [CHR 0x5C, CHR ''u'', CHR ''0'', CHR ''0''] @ [hex_digit ((of_char c :: nat) div 16), hex_digit (of_char c)]
      else [c])"

definition quote_json :: "string \<Rightarrow> string" where
  "quote_json s = [CHR 0x22] @ concat (map quote_char s) @ [CHR 0x22]"

fun JSON_stringify :: "jsval \<Rightarrow> string option"
  and stringify_elements :: "jsval list \<Rightarrow> string list"
  and stringify_properties :: "(string \<times> jsval) list \<Rightarrow> string list" where
  "JSON_stringify JUndefined = None"
| "JSON_stringify JNull = Some ''null''"
| "JSON_stringify (JBool b) = Some (if b then ''true'' else ''false'')"
| "JSON_stringify (JNum n) = Some (int_to_string n)"
| "JSON_stringify (JStr s) = Some (quote_json s)"
| "JSON_stringify (JArr vs) = Some (''['' @ join '','' (stringify_elements vs) @ '']'')"
| "JSON_stringify (JObj ps) = Some (''{'' @ join '','' (stringify_properties ps) @ ''}'')"
| "stringify_elements [] = []"
| "stringify_elements (v # vs) =
     (case JSON_stringify v of None \<Rightarrow> ''null'' | Some s \<Rightarrow> s) # stringify_elements vs"
| "stringify_properties [] = []"
| "stringify_properties (p # ps) =
     (case JSON_stringify (snd p) of
        None \<Rightarrow> stringify_properties ps
      | Some s \<Rightarrow> (quote_json (fst p) @ '':'' @ s) # stringify_properties ps)"

text \<open>The value \<^verbatim>\<open>JSON.parse\<close> reads back from the text \<^verbatim>\<open>JSON.stringify\<close> wrote for a
  value: the same value without its \<^verbatim>\<open>undefined\<close> properties, and with \<^verbatim>\<open>null\<close> for an
  \<^verbatim>\<open>undefined\<close> array element.\<close>

fun json_clone :: "jsval \<Rightarrow> jsval"
  and clone_elements :: "jsval list \<Rightarrow> jsval list"
  and clone_properties :: "(string \<times> jsval) list \<Rightarrow> (string \<times> jsval) list" where
  "json_clone (JArr vs) = JArr (clone_elements vs)"
| "json_clone (JObj ps) = JObj (clone_properties ps)"
| "json_clone v = v"
| "clone_elements [] = []"
| "clone_elements (v # vs) = (if v = JUndefined then JNull else json_clone v) # clone_elements vs"
| "clone_properties [] = []"
| "clone_properties (p # ps) =
     (if snd p = JUndefined then clone_properties ps
      else (fst p, json_clone (snd p)) # clone_properties ps)"

section \<open>Events (events.ts)\<close>

datatype EventAction =
    USER_MESSAGE
  | AGENT_MESSAGE
  | TOOL_CALL
  | TOOL_RESULT
  | ERROR
  | CONTROL_SIGNAL
  | COMPACTION
  | AGENT_TRANSFER
  | SYSTEM_INSTRUCTION

datatype Strategy = sliding_window | semantic | time_based

datatype SignalType = signal_reset | signal_handoff | signal_pause | signal_resume

text \<open>The fields every event has. The \<^verbatim>\<open>action\<close> tag is the constructor of \<open>Event\<close>.\<close>

record BaseEvent =
  id_e :: string
  timestamp :: int
  metadata_e :: "jsrecord option"

text \<open>\<^verbatim>\<open>result: string | object\<close> of a tool result.\<close>

datatype ToolResult =
    ResultString string
  | ResultObject jsrecord
  | ResultArray "jsval list"

datatype Event =
    UserMessageEvent (base: BaseEvent) (content: string) (customParams: "jsrecord option")
  | AgentMessageEvent (base: BaseEvent) (content: string) (agentId_e: string)
      (modelUsed: "string option") (tokensUsed: "int option") (gatewayLogId: "string option")
      (customParams: "jsrecord option")
  | ToolCallEvent (base: BaseEvent) (toolName: string) (arguments: jsrecord)
      (toolCallId: string) (serverId: "string option") (customParams: "jsrecord option")
  | ToolResultEvent (base: BaseEvent) (toolCallId: string) (toolName: string)
      (result: ToolResult) (isSuccess: bool) (executionTimeMs: "int option")
      (customParams: "jsrecord option")
  | ErrorEvent (base: BaseEvent) (errorType: string) (errorMessage: string)
      (errorStack: "string option") (recoverable: bool)
  | ControlSignalEvent (base: BaseEvent) (signalType: SignalType) (payload: "jsrecord option")
  | CompactionEvent (base: BaseEvent) (summary: string) (compactedEventIds: "string list")
      (compactionStrategy: Strategy) (originalTokenCount: "int option")
      (compactedTokenCount: "int option") (customParams: "jsrecord option")
  | AgentTransferEvent (base: BaseEvent) (fromAgent: string) (toAgent: string)
      (transferReason: string) (scopedContext: "string list option")
  | SystemInstructionEvent (base: BaseEvent) (instruction: string) (isStatic: bool)
      (customParams: "jsrecord option")

fun action :: "Event \<Rightarrow> EventAction" where
  "action (UserMessageEvent _ _ _) = USER_MESSAGE"
| "action (AgentMessageEvent _ _ _ _ _ _ _) = AGENT_MESSAGE"
| "action (ToolCallEvent _ _ _ _ _ _) = TOOL_CALL"
| "action (ToolResultEvent _ _ _ _ _ _ _) = TOOL_RESULT"
| "action (ErrorEvent _ _ _ _ _) = ERROR"
| "action (ControlSignalEvent _ _ _) = CONTROL_SIGNAL"
| "action (CompactionEvent _ _ _ _ _ _ _) = COMPACTION"
| "action (AgentTransferEvent _ _ _ _ _) = AGENT_TRANSFER"
| "action (SystemInstructionEvent _ _ _ _) = SYSTEM_INSTRUCTION"

section \<open>Session (session.ts)\<close>

record SessionMetadata =
  sessionId :: string
  createdAt :: int
  updatedAt :: int
  agentId :: string

record SessionStatistics =
  totalEvents :: nat
  totalUserMessages :: nat
  totalAgentMessages :: nat
  totalToolCalls :: nat
  totalErrors :: nat
  totalCompactions :: nat
  averageResponseTimeMs :: rat
  totalTokensUsed :: int

record CompactionConfig =
  enabled :: bool
  triggerThreshold :: int
  windowSize :: int
  overlapSize :: int
  strategy :: Strategy

record Session =
  metadata :: SessionMetadata
  events :: "Event list"
  statistics :: SessionStatistics
  compactionConfig :: CompactionConfig

text \<open>The constructor. \<open>now\<close> is \<^verbatim>\<open>Date.now()\<close>, \<open>rnd\<close> the nine characters of
  \<^verbatim>\<open>Math.random().toString(36).substr(2, 9)\<close>.\<close>

definition Session_new :: "int \<Rightarrow> string \<Rightarrow> string \<Rightarrow> Session" where
  "Session_new now rnd aid =
     \<lparr> metadata =
         \<lparr> sessionId = ''session_'' @ int_to_string now @ ''_'' @ rnd,
           createdAt = now, updatedAt = now, agentId = aid \<rparr>,
       events = [],
       statistics =
         \<lparr> totalEvents = 0, totalUserMessages = 0, totalAgentMessages = 0,
           totalToolCalls = 0, totalErrors = 0, totalCompactions = 0,
           averageResponseTimeMs = 0, totalTokensUsed = 0 \<rparr>,
       compactionConfig =
         \<lparr> enabled = True, triggerThreshold = 50, windowSize = 10, overlapSize = 2,
           strategy = sliding_window \<rparr> \<rparr>"

text \<open>The \<^verbatim>\<open>switch\<close> of \<^verbatim>\<open>addEvent\<close> on the action of the event. \<^verbatim>\<open>if (tokensUsed)\<close> is
  false for an absent amount and for \<open>0\<close>.\<close>

fun countEvent :: "Event \<Rightarrow> SessionStatistics \<Rightarrow> SessionStatistics" where
  "countEvent (UserMessageEvent _ _ _) st = st\<lparr>totalUserMessages := totalUserMessages st + 1\<rparr>"
| "countEvent (AgentMessageEvent _ _ _ _ tok _ _) st =
     (let st1 = st\<lparr>totalAgentMessages := totalAgentMessages st + 1\<rparr> in
      case tok of
        None \<Rightarrow> st1
      | Some t \<Rightarrow> if t \<noteq> 0 then st1\<lparr>totalTokensUsed := totalTokensUsed st1 + t\<rparr> else st1)"
| "countEvent (ToolCallEvent _ _ _ _ _ _) st = st\<lparr>totalToolCalls := totalToolCalls st + 1\<rparr>"
| "countEvent (ErrorEvent _ _ _ _ _) st = st\<lparr>totalErrors := totalErrors st + 1\<rparr>"
| "countEvent (CompactionEvent _ _ _ _ _ _ _) st = st\<lparr>totalCompactions := totalCompactions st + 1\<rparr>"
| "countEvent _ st = st"

definition addEvent :: "int \<Rightarrow> Event \<Rightarrow> Session \<Rightarrow> Session" where
  "addEvent now event s =
     s\<lparr> events := events s @ [event],
        metadata := (metadata s)\<lparr>updatedAt := now\<rparr>,
        statistics := countEvent event ((statistics s)\<lparr>totalEvents := totalEvents (statistics s) + 1\<rparr>) \<rparr>"

text \<open>A sequence of calls \<^verbatim>\<open>s.addEvent(e1).addEvent(e2)...\<close>, each with its own clock
  reading.\<close>

fun addEvents :: "(int \<times> Event) list \<Rightarrow> Session \<Rightarrow> Session" where
  "addEvents [] s = s"
| "addEvents (c # cs) s = addEvents cs (addEvent (fst c) (snd c) s)"

definition needsCompaction :: "Session \<Rightarrow> bool" where
  "needsCompaction s =
     (if \<not> enabled (compactionConfig s) then False
      else
        let uncompactedEvents = filter (\<lambda>e. action e \<noteq> COMPACTION) (events s) in
        int (length uncompactedEvents) \<ge> triggerThreshold (compactionConfig s))"

text \<open>\<^verbatim>\<open>Array.prototype.slice(start)\<close>: a negative start counts from the end, and the start is
  clamped to the array.\<close>

definition slice_from :: "int \<Rightarrow> 'a list \<Rightarrow> 'a list" where
  "slice_from start xs =
     (let len = int (length xs);
          k = (if start < 0 then max (len + start) 0 else min start len)
      in drop (nat k) xs)"

definition getLastNEvents :: "int \<Rightarrow> Session \<Rightarrow> Event list" where
  "getLastNEvents n s = slice_from (- n) (events s)"

text \<open>A conversation turn. The scan always creates a turn with \<^verbatim>\<open>tools: []\<close>, so the
  optional \<^verbatim>\<open>tools\<close> is a list here.\<close>

record ConversationTurn =
  user :: Event
  agent :: "Event option"
  tools :: "Event list"

text \<open>The loop of \<^verbatim>\<open>getConversationTurns\<close>, with its two variables \<^verbatim>\<open>turns\<close> and
  \<^verbatim>\<open>currentTurn\<close>.\<close>

fun turnsLoop ::
  "Event list \<Rightarrow> ConversationTurn list \<Rightarrow> ConversationTurn option \<Rightarrow>
     ConversationTurn list \<times> ConversationTurn option" where
  "turnsLoop [] turns currentTurn = (turns, currentTurn)"
| "turnsLoop (event # rest) turns currentTurn =
     (if action event = USER_MESSAGE then
        turnsLoop rest
          (case currentTurn of Some t \<Rightarrow> turns @ [t] | None \<Rightarrow> turns)
          (Some \<lparr> user = event, agent = None, tools = [] \<rparr>)
      else
        case currentTurn of
          None \<Rightarrow> turnsLoop rest turns None
        | Some t \<Rightarrow>
            if action event = AGENT_MESSAGE then
              turnsLoop rest turns (Some (t\<lparr>agent := Some event\<rparr>))
            else if action event = TOOL_CALL \<or> action event = TOOL_RESULT then
              turnsLoop rest turns (Some (t\<lparr>tools := tools t @ [event]\<rparr>))
            else turnsLoop rest turns (Some t))"

definition getConversationTurns :: "Session \<Rightarrow> ConversationTurn list" where
  "getConversationTurns s =
     (case turnsLoop (events s) [] None of
        (turns, Some t) \<Rightarrow> turns @ [t]
      | (turns, None) \<Rightarrow> turns)"


subsection \<open>Serialisation\<close>






datatype error = SyntaxError | TypeError | Error string






section \<open>Working context (working-context.ts)\<close>

datatype ContentRole = role_system | role_user | role_assistant | role_tool

fun role_string :: "ContentRole \<Rightarrow> string" where
  "role_string role_system = ''system''"
| "role_string role_user = ''user''"
| "role_string role_assistant = ''assistant''"
| "role_string role_tool = ''tool''"

record Content =
  role :: ContentRole
  content_c :: string
  name_c :: "string option"
  tool_call_id :: "string option"
  metadata_c :: "jsrecord option"

record AgentIdentity =
  name_i :: string
  role_i :: string
  capabilities :: "string list"

record ArtifactReference =
  id_a :: string
  name_a :: string
  type_a :: string
  summary_a :: string

record WorkingContextMetadata =
  sessionId_wc :: string
  totalEvents_wc :: nat
  compactedEvents :: nat
  windowSize_wc :: nat
  createdAt_wc :: int

record ContextWindowConfig =
  maxTokens :: rat
  reservedForResponse :: rat
  reservedForTools :: rat
  availableForHistory :: rat

record WorkingContext =
  systemInstructions :: "string list"
  agentIdentity :: "AgentIdentity option"
  contents :: "Content list"
  memoryResults :: "string list"
  artifactReferences :: "ArtifactReference list"
  metadata_wc :: WorkingContextMetadata

definition WorkingContext_new :: "int \<Rightarrow> string \<Rightarrow> WorkingContext" where
  "WorkingContext_new now sid =
     \<lparr> systemInstructions = [], agentIdentity = None, contents = [], memoryResults = [],
       artifactReferences = [],
       metadata_wc = \<lparr> sessionId_wc = sid, totalEvents_wc = 0, compactedEvents = 0,
                       windowSize_wc = 0, createdAt_wc = now \<rparr> \<rparr>"

definition addContent :: "Content \<Rightarrow> WorkingContext \<Rightarrow> WorkingContext" where
  "addContent c ctx = ctx\<lparr>contents := contents ctx @ [c]\<rparr>"

text \<open>The text of \<^verbatim>\<open>JSON.stringify\<close> where the code uses it as a string. An object or an
  array always has a text; \<^verbatim>\<open>undefined\<close> in a template literal prints as such.\<close>

definition json_text :: "jsval \<Rightarrow> string" where
  "json_text v = (case JSON_stringify v of Some s \<Rightarrow> s | None \<Rightarrow> ''undefined'')"

definition identity_json :: "AgentIdentity \<Rightarrow> jsval" where
  "identity_json i =
     JObj [(''name'', JStr (name_i i)), (''role'', JStr (role_i i)),
           (''capabilities'', JArr (map JStr (capabilities i)))]"

definition artifact_json :: "ArtifactReference \<Rightarrow> jsval" where
  "artifact_json a =
     JObj [(''id'', JStr (id_a a)), (''name'', JStr (name_a a)), (''type'', JStr (type_a a)),
           (''summary'', JStr (summary_a a))]"

definition newline :: string where
  "newline = [CHR 0x0A]"

text \<open>\<^verbatim>\<open>Math.ceil(chars / 4)\<close>.\<close>

definition ceil4 :: "nat \<Rightarrow> int" where
  "ceil4 chars = \<lceil>(of_nat chars :: rat) / 4\<rceil>"

definition totalChars :: "WorkingContext \<Rightarrow> nat" where
  "totalChars ctx =
     length (join newline (systemInstructions ctx))
     + (case agentIdentity ctx of Some i \<Rightarrow> length (json_text (identity_json i)) | None \<Rightarrow> 0)
     + sum_list (map (\<lambda>c. length (content_c c)) (contents ctx))
     + (if length (memoryResults ctx) > 0 then length (join newline (memoryResults ctx)) else 0)
     + (if length (artifactReferences ctx) > 0
        then length (json_text (JArr (map artifact_json (artifactReferences ctx)))) else 0)"

definition estimateTokenCount :: "WorkingContext \<Rightarrow> int" where
  "estimateTokenCount ctx = ceil4 (totalChars ctx)"

definition fitsWithinLimit :: "ContextWindowConfig \<Rightarrow> WorkingContext \<Rightarrow> bool" where
  "fitsWithinLimit config ctx = (of_int (estimateTokenCount ctx) \<le> availableForHistory config)"

text \<open>The loop of \<^verbatim>\<open>truncateToFit\<close>. The source counts \<^verbatim>\<open>i\<close> down from
  \<^verbatim>\<open>contents.length - 1\<close> to \<open>0\<close>; here the counter is \<^verbatim>\<open>i + 1\<close>, the number of contents
  not yet visited, so that the loop ends at \<open>0\<close>. \<^verbatim>\<open>unshift\<close> puts a content in front of the
  ones kept so far; \<^verbatim>\<open>break\<close> returns them.\<close>

fun keepLoop :: "rat \<Rightarrow> Content list \<Rightarrow> nat \<Rightarrow> rat \<Rightarrow> Content list \<Rightarrow> Content list" where
  "keepLoop availableForContents cs 0 currentContentTokens contentsToKeep = contentsToKeep"
| "keepLoop availableForContents cs (Suc i) currentContentTokens contentsToKeep =
     (let c = cs ! i;
          contentTokens = of_int (ceil4 (length (content_c c)))
      in if currentContentTokens + contentTokens \<le> availableForContents
         then keepLoop availableForContents cs i (currentContentTokens + contentTokens)
                (c # contentsToKeep)
         else contentsToKeep)"

definition systemTokens :: "WorkingContext \<Rightarrow> rat" where
  "systemTokens ctx =
     of_nat (length (join newline (systemInstructions ctx))) / 4
     + (case agentIdentity ctx of
          Some i \<Rightarrow> of_nat (length (json_text (identity_json i))) / 4
        | None \<Rightarrow> 0)"

definition truncateToFit :: "ContextWindowConfig \<Rightarrow> WorkingContext \<Rightarrow> WorkingContext" where
  "truncateToFit config ctx =
     (let currentTokens = estimateTokenCount ctx in
      if of_int currentTokens \<le> availableForHistory config then ctx
      else
        let availableForContents = availableForHistory config - systemTokens ctx;
            contentsToKeep =
              keepLoop availableForContents (contents ctx) (length (contents ctx)) 0 []
        in ctx\<lparr> contents := contentsToKeep,
                metadata_wc := (metadata_wc ctx)\<lparr>windowSize_wc := length contentsToKeep\<rparr> \<rparr>)"

subsection \<open>Model formats\<close>

record WorkersAIInput =
  type_in :: "string option"
  call_id :: "string option"
  output_in :: "string option"
  role_in :: "string option"
  content_in :: "string option"
  name_in :: "string option"

record WorkersAIMessage =
  role_m :: string
  content_m :: string
  name_m :: "string option"
  tool_call_id_m :: "string option"

datatype WorkersAIFormat =
    ResponsesFormat (instructions: string) (input_items: "WorkersAIInput list")
      (reasoning_effort: string) (reasoning_summary: string)
  | ChatFormat (messages: "WorkersAIMessage list")

record FormatOptions =
  format :: "string option"
  model :: "string option"

text \<open>\<^verbatim>\<open>x && {key: x}\<close> spread into an object: the key is set for a non-empty string only.\<close>

definition truthy :: "string option \<Rightarrow> string option" where
  "truthy x = (case x of Some s \<Rightarrow> if s = [] then None else Some s | None \<Rightarrow> None)"

definition MODELS_USING_ASSISTANT_ROLE :: "string list" where
  "MODELS_USING_ASSISTANT_ROLE = [''@cf/mistralai/mistral-small-3.1-24b-instruct'']"

definition systemContent :: "WorkingContext \<Rightarrow> string" where
  "systemContent ctx =
     join (newline @ newline) (systemInstructions ctx)
     @ (case agentIdentity ctx of
          Some i \<Rightarrow>
            newline @ newline @ ''Agent Identity:'' @ newline @ ''Name: '' @ name_i i
            @ newline @ ''Role: '' @ role_i i @ newline @ ''Capabilities: ''
            @ join '', '' (capabilities i)
        | None \<Rightarrow> [])
     @ (if length (memoryResults ctx) > 0
        then newline @ newline @ ''Relevant Memory:'' @ newline
             @ join (newline @ newline) (memoryResults ctx)
        else [])
     @ (if length (artifactReferences ctx) > 0
        then newline @ newline @ ''Available Artifacts:'' @ newline
             @ join newline
                 (map (\<lambda>a. ''- '' @ name_a a @ '' ('' @ type_a a @ ''): '' @ summary_a a)
                    (artifactReferences ctx))
        else [])"

definition responsesInput :: "Content \<Rightarrow> WorkersAIInput" where
  "responsesInput c =
     (if role c = role_tool then
        \<lparr> type_in = Some ''function_call_output'', call_id = tool_call_id c,
          output_in = Some (content_c c), role_in = None, content_in = None, name_in = None \<rparr>
      else
        \<lparr> type_in = None, call_id = None, output_in = None,
          role_in = Some (role_string (role c)), content_in = Some (content_c c),
          name_in = truthy (name_c c) \<rparr>)"

definition chatMessage :: "bool \<Rightarrow> Content \<Rightarrow> WorkersAIMessage" where
  "chatMessage usesAssistantRole c =
     (if role c = role_tool then
        if usesAssistantRole then
          \<lparr> role_m = ''assistant'', content_m = content_c c, name_m = None,
            tool_call_id_m = None \<rparr>
        else
          \<lparr> role_m = ''tool'', content_m = content_c c, name_m = None,
            tool_call_id_m = truthy (tool_call_id c) \<rparr>
      else
        \<lparr> role_m = role_string (role c), content_m = content_c c,
          name_m = truthy (name_c c), tool_call_id_m = truthy (tool_call_id c) \<rparr>)"

definition toWorkersAIFormat :: "string \<Rightarrow> string option \<Rightarrow> WorkingContext \<Rightarrow> WorkersAIFormat" where
  "toWorkersAIFormat fmt mdl ctx =
     (let usesAssistantRole =
            (case truthy mdl of Some m \<Rightarrow> m \<in> set MODELS_USING_ASSISTANT_ROLE | None \<Rightarrow> False)
      in if fmt = ''responses'' then
           ResponsesFormat (systemContent ctx) (map responsesInput (contents ctx))
             ''medium'' ''concise''
         else
           ChatFormat
             (\<lparr> role_m = ''system'', content_m = systemContent ctx, name_m = None,
                tool_call_id_m = None \<rparr>
              # map (chatMessage usesAssistantRole) (contents ctx)))"

text \<open>\<^verbatim>\<open>toModelFormat\<close>. An omitted \<^verbatim>\<open>modelType\<close> (\<open>None\<close>) takes the default
  \<^verbatim>\<open>"workers-ai"\<close>; \<^verbatim>\<open>options?.format || "chat_completions"\<close> takes the default for missing
  options, a missing format and the empty string.\<close>

definition toModelFormat ::
  "string option \<Rightarrow> FormatOptions option \<Rightarrow> WorkingContext \<Rightarrow> error + WorkersAIFormat" where
  "toModelFormat modelType options ctx =
     (let mt = (case modelType of None \<Rightarrow> ''workers-ai'' | Some m \<Rightarrow> m) in
      if mt = ''workers-ai'' then
        Inr (toWorkersAIFormat
               (case truthy (case options of None \<Rightarrow> None | Some opts \<Rightarrow> format opts) of
                  None \<Rightarrow> ''chat_completions''
                | Some f \<Rightarrow> f)
               (case options of None \<Rightarrow> None | Some opts \<Rightarrow> model opts)
               ctx)
      else Inl (Error (''Unsupported model type: '' @ mt)))"

section \<open>Processors (processors.ts)\<close>

record ContentsProcessorConfig =
  windowSize_cp :: "int option"
  includeToolCalls :: "bool option"
  filterActions :: "EventAction list option"

text \<open>The \<^verbatim>\<open>switch\<close> of the contents processor: the content an event projects to, if any.\<close>

fun eventContent :: "bool \<Rightarrow> Event \<Rightarrow> Content option" where
  "eventContent incl (UserMessageEvent b c cp) =
     Some \<lparr> role = role_user, content_c = c, name_c = None, tool_call_id = None,
            metadata_c = Some [(''eventId'', JStr (id_e b)), (''timestamp'', JNum (timestamp b))] \<rparr>"
| "eventContent incl (AgentMessageEvent b c a m t g cp) =
     Some \<lparr> role = role_assistant, content_c = c, name_c = None, tool_call_id = None,
            metadata_c = Some [(''eventId'', JStr (id_e b)), (''timestamp'', JNum (timestamp b)),
                               (''modelUsed'', case m of None \<Rightarrow> JUndefined | Some x \<Rightarrow> JStr x),
                               (''gatewayLogId'', case g of None \<Rightarrow> JUndefined | Some x \<Rightarrow> JStr x)] \<rparr>"
| "eventContent incl (ToolCallEvent b n args i sv cp) =
     (if incl then
        Some \<lparr> role = role_assistant,
               content_c = ''Tool call: '' @ n @ '' with arguments: '' @ json_text (JObj args),
               name_c = None, tool_call_id = None,
               metadata_c = Some [(''eventId'', JStr (id_e b)), (''timestamp'', JNum (timestamp b)),
                                  (''toolCallId'', JStr i), (''toolName'', JStr n)] \<rparr>
      else None)"
| "eventContent incl (ToolResultEvent b i n r ok ms cp) =
     (if incl then
        Some \<lparr> role = role_tool,
               content_c = (case r of
                              ResultString s \<Rightarrow> s
                            | ResultObject ps \<Rightarrow> json_text (JObj ps)
                            | ResultArray vs \<Rightarrow> json_text (JArr vs)),
               name_c = Some n, tool_call_id = Some i,
               metadata_c = Some [(''eventId'', JStr (id_e b)), (''timestamp'', JNum (timestamp b)),
                                  (''isSuccess'', JBool ok)] \<rparr>
      else None)"
| "eventContent incl (CompactionEvent b sm ids sy otc ctc cp) =
     Some \<lparr> role = role_system, content_c = ''[Conversation Summary]: '' @ sm,
            name_c = None, tool_call_id = None,
            metadata_c = Some [(''eventId'', JStr (id_e b)), (''timestamp'', JNum (timestamp b)),
                               (''compactedEventIds'', JArr (map JStr ids))] \<rparr>"
| "eventContent incl _ = None"

fun projectEvents :: "bool \<Rightarrow> Event list \<Rightarrow> WorkingContext \<Rightarrow> WorkingContext" where
  "projectEvents incl [] ctx = ctx"
| "projectEvents incl (event # rest) ctx =
     projectEvents incl rest
       (case eventContent incl event of Some c \<Rightarrow> addContent c ctx | None \<Rightarrow> ctx)"

definition contentsRequestProcessor ::
  "Session \<Rightarrow> WorkingContext \<Rightarrow> ContentsProcessorConfig option \<Rightarrow> WorkingContext" where
  "contentsRequestProcessor session context config =
     (let windowSize = (case config of None \<Rightarrow> None | Some c \<Rightarrow> windowSize_cp c);
          includeToolCalls =
            (case (case config of None \<Rightarrow> None | Some c \<Rightarrow> includeToolCalls c) of
               None \<Rightarrow> True | Some b \<Rightarrow> b);
          filterActions =
            (case (case config of None \<Rightarrow> None | Some c \<Rightarrow> filterActions c) of
               None \<Rightarrow> [] | Some fa \<Rightarrow> fa);
          eventsToProcess = events session;
          eventsToProcess1 =
            (case windowSize of
               Some w \<Rightarrow> if w \<noteq> 0 \<and> w > 0 then slice_from (- w) eventsToProcess else eventsToProcess
             | None \<Rightarrow> eventsToProcess);
          eventsToProcess2 =
            (if length filterActions > 0
             then filter (\<lambda>e. \<not> (action e \<in> set filterActions)) eventsToProcess1
             else eventsToProcess1);
          context1 = projectEvents includeToolCalls eventsToProcess2 context
      in context1\<lparr>metadata_wc := (metadata_wc context1)\<lparr>windowSize_wc := length (contents context1)\<rparr>\<rparr>)"

record CompactionFilterProcessorConfig =
  keepCompactionSummaries :: "bool option"

text \<open>A \<^verbatim>\<open>Set<string>\<close>, as the list of its members in insertion order.\<close>

definition set_add :: "string \<Rightarrow> string list \<Rightarrow> string list" where
  "set_add x xs = (if x \<in> set xs then xs else xs @ [x])"

fun collectIds :: "Event list \<Rightarrow> string list \<Rightarrow> string list" where
  "collectIds [] acc = acc"
| "collectIds (compaction # rest) acc =
     collectIds rest (foldl (\<lambda>a i. set_add i a) acc (compactedEventIds compaction))"

definition compactionFilterRequestProcessor ::
  "Session \<Rightarrow> WorkingContext \<Rightarrow> CompactionFilterProcessorConfig option \<Rightarrow> WorkingContext" where
  "compactionFilterRequestProcessor session context config =
     (let keepSummaries =
            (case (case config of None \<Rightarrow> None | Some c \<Rightarrow> keepCompactionSummaries c) of
               None \<Rightarrow> True | Some b \<Rightarrow> b);
          compactionEvents = filter (\<lambda>e. action e = COMPACTION) (events session);
          compactedIds = collectIds compactionEvents [];
          filteredEvents =
            filter (\<lambda>e. \<not> (id_e (base e) \<in> set compactedIds)
                        \<or> (keepSummaries \<and> action e = COMPACTION))
              (events session);
          tempSession = session\<lparr>events := filteredEvents\<rparr>;
          context1 = context\<lparr>metadata_wc := (metadata_wc context)\<lparr>compactedEvents := length compactedIds\<rparr>\<rparr>
      in contentsRequestProcessor tempSession context1 None)"

text \<open>The response a response processor reads: \<^verbatim>\<open>{metadata?: {responseTimeMs?: number}}\<close>.\<close>

record ResponseMetadata =
  responseTimeMs :: "rat option"

record Response =
  metadata_r :: "ResponseMetadata option"

text \<open>\<^verbatim>\<open>if (resp.metadata?.responseTimeMs)\<close> is false without metadata, without a sample and
  for the sample \<open>0\<close>.\<close>

definition statisticsResponseProcessor :: "Session \<Rightarrow> Response \<Rightarrow> WorkingContext \<Rightarrow> Session" where
  "statisticsResponseProcessor session response context =
     (case (case metadata_r response of None \<Rightarrow> None | Some m \<Rightarrow> responseTimeMs m) of
        None \<Rightarrow> session
      | Some sample \<Rightarrow>
          if sample \<noteq> 0 then
            let currentAvg = averageResponseTimeMs (statistics session);
                totalResponses = totalAgentMessages (statistics session);
                newAvg = (currentAvg * of_nat totalResponses + sample) / (of_nat totalResponses + 1)
            in session\<lparr>statistics := (statistics session)\<lparr>averageResponseTimeMs := newAvg\<rparr>\<rparr>
          else session)"


section \<open>Notions the properties are stated with\<close>

text \<open>The token amount an event carries: the \<^verbatim>\<open>tokensUsed\<close> of an agent message that has
  one.\<close>

definition carriedTokens :: "Event \<Rightarrow> int list" where
  "carriedTokens e =
     (case e of AgentMessageEvent _ _ _ _ (Some t) _ _ \<Rightarrow> [t] | _ \<Rightarrow> [])"

definition countOf :: "EventAction \<Rightarrow> Event list \<Rightarrow> nat" where
  "countOf a es = length (filter (\<lambda>e. action e = a) es)"

text \<open>The turns of a scan, with the turn in progress flushed.\<close>

definition flush :: "ConversationTurn list \<times> ConversationTurn option \<Rightarrow> ConversationTurn list" where
  "flush p = (case p of (turns, Some t) \<Rightarrow> turns @ [t] | (turns, None) \<Rightarrow> turns)"

text \<open>The cost \<^verbatim>\<open>Math.ceil(content.content.length / 4)\<close> of a content, and of a list of
  contents.\<close>

definition contentTokens :: "Content \<Rightarrow> rat" where
  "contentTokens c = of_int \<lceil>(of_nat (length (content_c c)) :: rat) / 4\<rceil>"

definition tokensOf :: "Content list \<Rightarrow> rat" where
  "tokensOf cs = sum_list (map contentTokens cs)"

text \<open>The truncation loop over the contents in the order it visits them (most recent
  first), and the number of contents it keeps.\<close>

fun keepRev :: "rat \<Rightarrow> Content list \<Rightarrow> rat \<Rightarrow> Content list \<Rightarrow> Content list" where
  "keepRev a [] cur keep = keep"
| "keepRev a (c # rs) cur keep =
     (if cur + contentTokens c \<le> a then keepRev a rs (cur + contentTokens c) (c # keep) else keep)"

fun keepCount :: "rat \<Rightarrow> Content list \<Rightarrow> rat \<Rightarrow> nat" where
  "keepCount a [] cur = 0"
| "keepCount a (c # rs) cur =
     (if cur + contentTokens c \<le> a then Suc (keepCount a rs (cur + contentTokens c)) else 0)"

definition dropped :: "rat \<Rightarrow> Content list \<Rightarrow> nat" where
  "dropped a cs = length cs - keepCount a (rev cs) 0"

text \<open>The event a content was projected from: the \<^verbatim>\<open>eventId\<close> of its metadata.\<close>

definition contentEventId :: "Content \<Rightarrow> string option" where
  "contentEventId c =
     (case metadata_c c of
        None \<Rightarrow> None
      | Some ps \<Rightarrow> (case map_of ps ''eventId'' of Some (JStr i) \<Rightarrow> Some i | _ \<Rightarrow> None))"

text \<open>The ids the compaction events of a session reference.\<close>

definition referencedIds :: "Session \<Rightarrow> string set" where
  "referencedIds s = (\<Union>e \<in> {e \<in> set (events s). action e = COMPACTION}. set (compactedEventIds e))"

definition keepSummariesConfig :: "CompactionFilterProcessorConfig option" where
  "keepSummariesConfig = Some \<lparr> keepCompactionSummaries = Some True \<rparr>"

subsection \<open>A sample conversation\<close>

definition userHello :: Event where
  "userHello = UserMessageEvent \<lparr> id_e = ''e1'', timestamp = 1, metadata_e = None \<rparr> ''hello'' None"

definition agentHi :: Event where
  "agentHi = AgentMessageEvent \<lparr> id_e = ''e2'', timestamp = 2, metadata_e = None \<rparr>
          ''hi there'' ''agent'' (Some ''llama'') (Some 7) None None"

definition callSearch :: Event where
  "callSearch = ToolCallEvent \<lparr> id_e = ''e3'', timestamp = 3, metadata_e = None \<rparr>
          ''search'' [(''q'', JStr ''x'')] ''call1'' None None"

definition resultFound :: Event where
  "resultFound = ToolResultEvent \<lparr> id_e = ''e4'', timestamp = 4, metadata_e = None \<rparr>
          ''call1'' ''search'' (ResultString ''found'') True None None"

definition userThanks :: Event where
  "userThanks = UserMessageEvent \<lparr> id_e = ''e5'', timestamp = 5, metadata_e = None \<rparr> ''thanks'' None"

definition summaryFirst :: Event where
  "summaryFirst = CompactionEvent \<lparr> id_e = ''c1'', timestamp = 6, metadata_e = None \<rparr>
          ''greeting and search'' [''e1'', ''e3''] sliding_window None None None"

definition summarySecond :: Event where
  "summarySecond = CompactionEvent \<lparr> id_e = ''c2'', timestamp = 7, metadata_e = None \<rparr>
          ''all so far'' [''c1'', ''e3''] sliding_window None None None"

definition conversation :: Session where
  "conversation =
     addEvents [(1, userHello), (2, agentHi), (3, callSearch), (4, resultFound), (5, userThanks), (6, summaryFirst)]
       (Session_new 0 ''abcdefghi'' ''agent'')"

text \<open>A log in which a later compaction summarises an earlier summary.\<close>

definition resummarised :: Session where
  "resummarised = addEvents [(6, summaryFirst), (7, summarySecond)] (Session_new 0 ''abcdefghi'' ''agent'')"



definition emptyContext :: WorkingContext where
  "emptyContext = WorkingContext_new 0 ''session_0_abcdefghi''"

text \<open>Three contents, the middle one large: an old short one, then forty characters, then
  the most recent short one.\<close>

definition plainContent :: "string \<Rightarrow> Content" where
  "plainContent s =
     \<lparr> role = role_user, content_c = s, name_c = None, tool_call_id = None, metadata_c = None \<rparr>"

definition crowded :: WorkingContext where
  "crowded =
     emptyContext\<lparr>contents :=
       [plainContent ''a'', plainContent ''0123456789012345678901234567890123456789'',
        plainContent ''bb'']\<rparr>"

text \<open>Three short contents under one system instruction of six characters and an agent
  identity whose JSON text has 41 characters.\<close>

definition guide :: AgentIdentity where
  "guide = \<lparr> name_i = ''A'', role_i = ''r'', capabilities = [] \<rparr>"

definition instructed :: WorkingContext where
  "instructed =
     emptyContext\<lparr> systemInstructions := [''abcdef''], agentIdentity := Some guide,
                    contents := [plainContent ''a'', plainContent ''bbbb'', plainContent ''cc''] \<rparr>"

definition budget :: "rat \<Rightarrow> ContextWindowConfig" where
  "budget n = \<lparr> maxTokens = 100, reservedForResponse = 10, reservedForTools = 10,
               availableForHistory = n \<rparr>"


section \<open>The sample conversation, evaluated\<close>

lemma conversation_events:
  "events conversation = [userHello, agentHi, callSearch, resultFound, userThanks, summaryFirst]"
  by (simp add: conversation_def addEvent_def Session_new_def)

lemma resummarised_events: "events resummarised = [summaryFirst, summarySecond]"
  by (simp add: resummarised_def addEvent_def Session_new_def)

lemma sample_actions:
  "action userHello = USER_MESSAGE" "action agentHi = AGENT_MESSAGE"
  "action callSearch = TOOL_CALL" "action resultFound = TOOL_RESULT"
  "action userThanks = USER_MESSAGE" "action summaryFirst = COMPACTION"
  "action summarySecond = COMPACTION"
  by (simp_all add: userHello_def agentHi_def callSearch_def resultFound_def userThanks_def
      summaryFirst_def summarySecond_def)

lemma sample_ids:
  "id_e (base userHello) = ''e1''" "id_e (base agentHi) = ''e2''"
  "id_e (base callSearch) = ''e3''" "id_e (base resultFound) = ''e4''"
  "id_e (base userThanks) = ''e5''" "id_e (base summaryFirst) = ''c1''"
  "id_e (base summarySecond) = ''c2''"
  by (simp_all add: userHello_def agentHi_def callSearch_def resultFound_def userThanks_def
      summaryFirst_def summarySecond_def)

lemma sample_compacted:
  "compactedEventIds summaryFirst = [''e1'', ''e3'']"
  "compactedEventIds summarySecond = [''c1'', ''e3'']"
  "summary summaryFirst = ''greeting and search''"
  by (simp_all add: summaryFirst_def summarySecond_def)

section \<open>Statistics are the fold of the appended events\<close>

lemma countOf_Nil: "countOf a [] = 0"
  by (simp add: countOf_def)

lemma countOf_Cons: "countOf a (x # xs) = (if action x = a then 1 else 0) + countOf a xs"
  by (simp add: countOf_def)

lemma countEvent_fields:
  "totalEvents (countEvent e st) = totalEvents st"
  "totalUserMessages (countEvent e st) = totalUserMessages st + countOf USER_MESSAGE [e]"
  "totalAgentMessages (countEvent e st) = totalAgentMessages st + countOf AGENT_MESSAGE [e]"
  "totalToolCalls (countEvent e st) = totalToolCalls st + countOf TOOL_CALL [e]"
  "totalErrors (countEvent e st) = totalErrors st + countOf ERROR [e]"
  "totalCompactions (countEvent e st) = totalCompactions st + countOf COMPACTION [e]"
  "totalTokensUsed (countEvent e st) = totalTokensUsed st + sum_list (carriedTokens e)"
  "averageResponseTimeMs (countEvent e st) = averageResponseTimeMs st"
  by (cases e; simp add: countOf_def carriedTokens_def Let_def split: option.splits)+

lemma addEvents_events: "events (addEvents cs s) = events s @ map snd cs"
  by (induction cs arbitrary: s) (simp_all add: addEvent_def)

lemma addEvents_statistics:
  "totalEvents (statistics (addEvents cs s)) = totalEvents (statistics s) + length cs"
  "totalUserMessages (statistics (addEvents cs s)) =
     totalUserMessages (statistics s) + countOf USER_MESSAGE (map snd cs)"
  "totalAgentMessages (statistics (addEvents cs s)) =
     totalAgentMessages (statistics s) + countOf AGENT_MESSAGE (map snd cs)"
  "totalToolCalls (statistics (addEvents cs s)) =
     totalToolCalls (statistics s) + countOf TOOL_CALL (map snd cs)"
  "totalErrors (statistics (addEvents cs s)) =
     totalErrors (statistics s) + countOf ERROR (map snd cs)"
  "totalCompactions (statistics (addEvents cs s)) =
     totalCompactions (statistics s) + countOf COMPACTION (map snd cs)"
  "totalTokensUsed (statistics (addEvents cs s)) =
     totalTokensUsed (statistics s) + sum_list (concat (map carriedTokens (map snd cs)))"
proof (induction cs arbitrary: s)
  case Nil
  {
    case 1 show ?case by simp next
    case 2 show ?case by (simp add: countOf_Nil) next
    case 3 show ?case by (simp add: countOf_Nil) next
    case 4 show ?case by (simp add: countOf_Nil) next
    case 5 show ?case by (simp add: countOf_Nil) next
    case 6 show ?case by (simp add: countOf_Nil) next
    case 7 show ?case by simp
  }
next
  case (Cons c cs)
  {
    case 1 show ?case by (simp add: Cons.IH addEvent_def countEvent_fields) next
    case 2 show ?case by (simp add: Cons.IH addEvent_def countEvent_fields countOf_Cons countOf_Nil) next
    case 3 show ?case by (simp add: Cons.IH addEvent_def countEvent_fields countOf_Cons countOf_Nil) next
    case 4 show ?case by (simp add: Cons.IH addEvent_def countEvent_fields countOf_Cons countOf_Nil) next
    case 5 show ?case by (simp add: Cons.IH addEvent_def countEvent_fields countOf_Cons countOf_Nil) next
    case 6 show ?case by (simp add: Cons.IH addEvent_def countEvent_fields countOf_Cons countOf_Nil) next
    case 7 show ?case by (simp add: Cons.IH addEvent_def countEvent_fields)
  }
qed

text \<open>
  Claim C1. After any sequence of \<open>N\<close> calls of \<^verbatim>\<open>addEvent\<close> on a freshly constructed
  session, the log holds the appended events in order, \<^verbatim>\<open>totalEvents\<close> is \<open>N\<close>, each
  per-type counter (user messages, agent messages, tool calls, errors, compactions) is the
  number of appended events of that action, and \<^verbatim>\<open>totalTokensUsed\<close> is the sum of the
  \<^verbatim>\<open>tokensUsed\<close> of the appended agent messages that carry one.
\<close>

theorem addEvent_statistics_fold:
  "events (addEvents cs (Session_new now rnd aid)) = map snd cs \<and>
   totalEvents (statistics (addEvents cs (Session_new now rnd aid))) = length cs \<and>
   totalUserMessages (statistics (addEvents cs (Session_new now rnd aid))) =
     length (filter (\<lambda>e. action e = USER_MESSAGE) (map snd cs)) \<and>
   totalAgentMessages (statistics (addEvents cs (Session_new now rnd aid))) =
     length (filter (\<lambda>e. action e = AGENT_MESSAGE) (map snd cs)) \<and>
   totalToolCalls (statistics (addEvents cs (Session_new now rnd aid))) =
     length (filter (\<lambda>e. action e = TOOL_CALL) (map snd cs)) \<and>
   totalErrors (statistics (addEvents cs (Session_new now rnd aid))) =
     length (filter (\<lambda>e. action e = ERROR) (map snd cs)) \<and>
   totalCompactions (statistics (addEvents cs (Session_new now rnd aid))) =
     length (filter (\<lambda>e. action e = COMPACTION) (map snd cs)) \<and>
   totalTokensUsed (statistics (addEvents cs (Session_new now rnd aid))) =
     sum_list (concat (map carriedTokens (map snd cs)))"
  by (simp add: addEvents_events addEvents_statistics) (simp add: Session_new_def countOf_def)

theorem addEvent_statistics_fold_witness:
  "totalEvents (statistics conversation) = 6 \<and>
   totalUserMessages (statistics conversation) = 2 \<and>
   totalAgentMessages (statistics conversation) = 1 \<and>
   totalToolCalls (statistics conversation) = 1 \<and>
   totalErrors (statistics conversation) = 0 \<and>
   totalCompactions (statistics conversation) = 1 \<and>
   totalTokensUsed (statistics conversation) = 7"
  using addEvent_statistics_fold
    [of "[(1, userHello), (2, agentHi), (3, callSearch), (4, resultFound), (5, userThanks),
          (6, summaryFirst)]" 0 "''abcdefghi''" "''agent''"]
  by (simp add: conversation_def sample_actions carriedTokens_def)
    (simp add: userHello_def agentHi_def callSearch_def resultFound_def userThanks_def
      summaryFirst_def)

section \<open>Round trip through the stored form\<close>






section \<open>The compaction trigger\<close>

text \<open>
  Claim C3. \<^verbatim>\<open>needsCompaction()\<close> is false when compaction is disabled; otherwise it is true
  exactly when the number of events whose action is not \<^verbatim>\<open>compaction\<close> is at least
  \<^verbatim>\<open>triggerThreshold\<close>, which is \<open>50\<close> in a new session. Compaction events do not count:
  the answer is the one for the log without them.
\<close>

theorem needsCompaction_threshold:
  "needsCompaction s =
     (enabled (compactionConfig s) \<and>
      triggerThreshold (compactionConfig s)
        \<le> int (length (filter (\<lambda>e. action e \<noteq> COMPACTION) (events s)))) \<and>
   needsCompaction (s\<lparr>events := filter (\<lambda>e. action e \<noteq> COMPACTION) (events s)\<rparr>) =
     needsCompaction s \<and>
   triggerThreshold (compactionConfig (Session_new now rnd aid)) = 50"
  by (simp add: needsCompaction_def Session_new_def Let_def)

theorem needsCompaction_threshold_witness:
  "\<not> needsCompaction conversation \<and>
   needsCompaction
     (conversation\<lparr>compactionConfig := (compactionConfig conversation)\<lparr>triggerThreshold := 5\<rparr>\<rparr>) \<and>
   \<not> needsCompaction
     (conversation\<lparr>compactionConfig :=
        (compactionConfig conversation)\<lparr>triggerThreshold := 5, enabled := False\<rparr>\<rparr>) \<and>
   \<not> needsCompaction
     (conversation\<lparr>compactionConfig := (compactionConfig conversation)\<lparr>triggerThreshold := 6\<rparr>\<rparr>)"
  using needsCompaction_threshold [of conversation 0 "''abcdefghi''" "''agent''"]
    needsCompaction_threshold
      [of "conversation\<lparr>compactionConfig := (compactionConfig conversation)\<lparr>triggerThreshold := 5\<rparr>\<rparr>"
        0 "''abcdefghi''" "''agent''"]
    needsCompaction_threshold
      [of "conversation\<lparr>compactionConfig :=
             (compactionConfig conversation)\<lparr>triggerThreshold := 5, enabled := False\<rparr>\<rparr>"
        0 "''abcdefghi''" "''agent''"]
    needsCompaction_threshold
      [of "conversation\<lparr>compactionConfig := (compactionConfig conversation)\<lparr>triggerThreshold := 6\<rparr>\<rparr>"
        0 "''abcdefghi''" "''agent''"]
  by (simp add: conversation_events sample_actions)
    (simp add: conversation_def Session_new_def addEvent_def)

section \<open>Truncation to the token budget\<close>

lemma ceil4_div: "ceil4 n = int ((n + 3) div 4)"
proof -
  have "\<lceil>(of_int (int n) :: rat) / of_int 4\<rceil> = - (- int n div 4)"
    by (rule ceiling_divide_eq_div)
  then have "ceil4 n = - (- int n div 4)" by (simp add: ceil4_def)
  also have "\<dots> = int ((n + 3) div 4)" by (simp add: zdiv_int)
  finally show ?thesis .
qed

lemma contentTokens_ceil4: "contentTokens c = of_int (ceil4 (length (content_c c)))"
  by (simp add: contentTokens_def ceil4_def)

lemma contentTokens_nonneg: "0 \<le> contentTokens c"
  by (simp add: contentTokens_ceil4 ceil4_div)

lemma tokensOf_nonneg: "0 \<le> tokensOf cs"
  by (induction cs) (simp_all add: tokensOf_def contentTokens_nonneg)

lemma keepLoop_keepRev:
  "n \<le> length cs \<Longrightarrow> keepLoop a cs n cur keep = keepRev a (rev (take n cs)) cur keep"
proof (induction n arbitrary: cur keep)
  case 0
  then show ?case by simp
next
  case (Suc n)
  then have "rev (take (Suc n) cs) = cs ! n # rev (take n cs)"
    by (simp add: take_Suc_conv_app_nth)
  with Suc show ?case by (simp add: Let_def contentTokens_ceil4)
qed

lemma keepRev_count: "keepRev a rs cur keep = rev (take (keepCount a rs cur) rs) @ keep"
  by (induction rs arbitrary: cur keep) auto

lemma keepCount_le: "keepCount a rs cur \<le> length rs"
  by (induction rs arbitrary: cur) auto

lemma keepCount_take: "keepCount a (take (keepCount a rs cur) rs) cur = keepCount a rs cur"
  by (induction rs arbitrary: cur) auto

lemma keepCount_within:
  "0 < keepCount a rs cur \<Longrightarrow> cur + tokensOf (take (keepCount a rs cur) rs) \<le> a"
proof (induction rs arbitrary: cur)
  case Nil
  then show ?case by simp
next
  case (Cons c rs)
  then have le: "cur + contentTokens c \<le> a" by (simp split: if_splits)
  show ?case
  proof (cases "keepCount a rs (cur + contentTokens c)")
    case 0
    with le show ?thesis by (simp add: tokensOf_def)
  next
    case (Suc k)
    with Cons.IH [of "cur + contentTokens c"] le show ?thesis
      by (simp add: tokensOf_def add.assoc)
  qed
qed

lemma keepCount_exceeds:
  "keepCount a rs cur < length rs \<Longrightarrow> a < cur + tokensOf (take (Suc (keepCount a rs cur)) rs)"
proof (induction rs arbitrary: cur)
  case Nil
  then show ?case by simp
next
  case (Cons c rs)
  show ?case
  proof (cases "cur + contentTokens c \<le> a")
    case True
    with Cons.prems have "keepCount a rs (cur + contentTokens c) < length rs" by simp
    from Cons.IH [OF this] True show ?thesis by (simp add: tokensOf_def add.assoc)
  next
    case False
    then show ?thesis by (simp add: tokensOf_def)
  qed
qed

lemma tokensOf_take_mono: "i \<le> j \<Longrightarrow> tokensOf (take i rs) \<le> tokensOf (take j rs)"
proof -
  assume "i \<le> j"
  then have "take j rs = take i rs @ take (j - i) (drop i rs)"
    by (metis le_add_diff_inverse take_add)
  then have "tokensOf (take j rs) = tokensOf (take i rs) + tokensOf (take (j - i) (drop i rs))"
    by (simp add: tokensOf_def)
  with tokensOf_nonneg [of "take (j - i) (drop i rs)"] show ?thesis by simp
qed

lemma tokensOf_rev: "tokensOf (rev cs) = tokensOf cs"
  by (simp add: tokensOf_def rev_map [symmetric])

lemma tokensOf_drop: "tokensOf (drop j cs) = tokensOf (take (length cs - j) (rev cs))"
proof -
  have "take (length cs - j) (rev cs) = rev (drop j cs)"
    by (cases "j \<le> length cs") (simp_all add: take_rev)
  then show ?thesis by (simp add: tokensOf_rev)
qed

lemma keepLoop_suffix: "keepLoop a cs (length cs) 0 [] = drop (dropped a cs) cs"
  by (simp add: keepLoop_keepRev keepRev_count dropped_def take_rev)

lemma keepLoop_idem:
  "keepLoop a (keepLoop a cs (length cs) 0 []) (length (keepLoop a cs (length cs) 0 [])) 0 []
     = keepLoop a cs (length cs) 0 []"
proof -
  let ?k = "keepCount a (rev cs) 0"
  have K: "keepLoop a cs (length cs) 0 [] = rev (take ?k (rev cs))"
    by (simp add: keepLoop_keepRev keepRev_count)
  have "keepLoop a (rev (take ?k (rev cs))) (length (rev (take ?k (rev cs)))) 0 []
          = rev (take (keepCount a (take ?k (rev cs)) 0) (take ?k (rev cs)))"
    by (simp add: keepLoop_keepRev keepRev_count del: length_rev length_take)
  also have "\<dots> = rev (take ?k (rev cs))"
    by (simp add: keepCount_take)
  finally show ?thesis by (simp only: K)
qed

lemma dropped_props:
  "dropped a cs \<le> length cs"
  "dropped a cs < length cs \<Longrightarrow> tokensOf (drop (dropped a cs) cs) \<le> a"
  "j < dropped a cs \<Longrightarrow> a < tokensOf (drop j cs)"
proof -
  let ?k = "keepCount a (rev cs) 0"
  have kle: "?k \<le> length cs" using keepCount_le [of a "rev cs" 0] by simp
  show "dropped a cs \<le> length cs" by (simp add: dropped_def)
  show "tokensOf (drop (dropped a cs) cs) \<le> a" if "dropped a cs < length cs"
  proof -
    from that have "0 < ?k" by (simp add: dropped_def)
    from keepCount_within [OF this] have "tokensOf (take ?k (rev cs)) \<le> a" by simp
    moreover have "length cs - dropped a cs = ?k" using kle by (simp add: dropped_def)
    ultimately show ?thesis by (simp add: tokensOf_drop)
  qed
  show "a < tokensOf (drop j cs)" if "j < dropped a cs"
  proof -
    from that have lt: "?k < length (rev cs)" and le: "Suc ?k \<le> length cs - j"
      by (simp_all add: dropped_def)
    from keepCount_exceeds [OF lt] have "a < tokensOf (take (Suc ?k) (rev cs))" by simp
    also have "\<dots> \<le> tokensOf (take (length cs - j) (rev cs))" by (rule tokensOf_take_mono [OF le])
    finally show ?thesis by (simp add: tokensOf_drop)
  qed
qed

lemma systemTokens_contents:
  "systemTokens (ctx\<lparr>contents := cs, metadata_wc := m\<rparr>) = systemTokens ctx"
  by (simp add: systemTokens_def)

lemma truncateToFit_over:
  "\<not> of_int (estimateTokenCount ctx) \<le> availableForHistory config \<Longrightarrow>
     truncateToFit config ctx =
       ctx\<lparr> contents := drop (dropped (availableForHistory config - systemTokens ctx) (contents ctx)) (contents ctx),
            metadata_wc := (metadata_wc ctx)
              \<lparr>windowSize_wc := length (contents ctx)
                 - dropped (availableForHistory config - systemTokens ctx) (contents ctx)\<rparr> \<rparr>"
  by (simp add: truncateToFit_def Let_def keepLoop_suffix)

lemma plain_tokens:
  "contentTokens (plainContent ''a'') = 1"
  "contentTokens (plainContent ''0123456789012345678901234567890123456789'') = 10"
  "contentTokens (plainContent ''bb'') = 1"
  by (simp_all add: contentTokens_ceil4 plainContent_def ceil4_div)

lemma crowded_contents:
  "contents crowded =
     [plainContent ''a'', plainContent ''0123456789012345678901234567890123456789'',
      plainContent ''bb'']"
  by (simp add: crowded_def)

lemma crowded_chars: "totalChars crowded = 43"
  by (simp add: totalChars_def crowded_def emptyContext_def WorkingContext_new_def
      plainContent_def)

lemma crowded_estimate: "estimateTokenCount crowded = 11" "systemTokens crowded = 0"
  by (simp add: estimateTokenCount_def crowded_chars ceil4_div)
    (simp add: systemTokens_def crowded_def emptyContext_def WorkingContext_new_def)

lemma crowded_dropped: "dropped 5 (contents crowded) = 2"
  by (simp add: dropped_def crowded_contents plain_tokens)

lemma crowded_truncated:
  "truncateToFit (budget 5) crowded =
     crowded\<lparr> contents := [plainContent ''bb''],
              metadata_wc := (metadata_wc crowded)\<lparr>windowSize_wc := 1\<rparr> \<rparr>"
proof -
  have over: "\<not> of_int (estimateTokenCount crowded) \<le> availableForHistory (budget 5)"
    by (simp add: crowded_estimate budget_def)
  have a: "availableForHistory (budget 5) - systemTokens crowded = 5"
    by (simp add: crowded_estimate budget_def)
  show ?thesis
    by (simp only: truncateToFit_over [OF over] a crowded_dropped)
      (simp add: crowded_contents)
qed

lemma guide_length: "length (json_text (identity_json guide)) = 41"
  by (simp add: json_text_def identity_json_def guide_def quote_json_def quote_char_def)

lemma short_tokens:
  "contentTokens (plainContent ''a'') = 1" "contentTokens (plainContent ''bbbb'') = 1"
  "contentTokens (plainContent ''cc'') = 1"
  by (simp_all add: contentTokens_ceil4 plainContent_def ceil4_div)

lemma instructed_parts:
  "contents instructed = [plainContent ''a'', plainContent ''bbbb'', plainContent ''cc'']"
  "systemInstructions instructed = [''abcdef'']"
  "agentIdentity instructed = Some guide"
  by (simp_all add: instructed_def)

lemma instructed_chars: "totalChars instructed = 54"
  by (simp add: totalChars_def instructed_def guide_length emptyContext_def WorkingContext_new_def
      plainContent_def newline_def)

lemma instructed_estimate: "estimateTokenCount instructed = 14" "systemTokens instructed = 47 / 4"
  by (simp add: estimateTokenCount_def instructed_chars ceil4_div)
    (simp add: systemTokens_def instructed_parts guide_length)

lemma instructed_dropped: "dropped (5 / 4) (contents instructed) = 2"
  by (simp add: dropped_def instructed_parts short_tokens)

lemma instructed_truncated:
  "truncateToFit (budget 13) instructed =
     instructed\<lparr> contents := [plainContent ''cc''],
                 metadata_wc := (metadata_wc instructed)\<lparr>windowSize_wc := 1\<rparr> \<rparr>"
proof -
  have over: "\<not> of_int (estimateTokenCount instructed) \<le> availableForHistory (budget 13)"
    by (simp add: instructed_estimate budget_def)
  have a: "availableForHistory (budget 13) - systemTokens instructed = 5 / 4"
    by (simp add: instructed_estimate budget_def)
  show ?thesis
    by (simp only: truncateToFit_over [OF over] a instructed_dropped)
      (simp add: instructed_parts)
qed

lemma truncateToFit_walk:
  "\<not> of_int (estimateTokenCount ctx) \<le> availableForHistory config \<Longrightarrow>
     \<exists>k \<le> length (contents ctx).
       truncateToFit config ctx =
         ctx\<lparr> contents := drop k (contents ctx),
              metadata_wc := (metadata_wc ctx)\<lparr>windowSize_wc := length (drop k (contents ctx))\<rparr> \<rparr> \<and>
       (k < length (contents ctx) \<longrightarrow>
          tokensOf (drop k (contents ctx)) \<le> availableForHistory config - systemTokens ctx) \<and>
       (\<forall>j < k. availableForHistory config - systemTokens ctx < tokensOf (drop j (contents ctx)))"
proof -
  assume over: "\<not> of_int (estimateTokenCount ctx) \<le> availableForHistory config"
  let ?a = "availableForHistory config - systemTokens ctx"
  let ?k = "dropped ?a (contents ctx)"
  show ?thesis
  proof (intro exI [where x = ?k] conjI impI allI)
    show "?k \<le> length (contents ctx)" by (rule dropped_props(1))
    show "truncateToFit config ctx =
           ctx\<lparr> contents := drop ?k (contents ctx),
                metadata_wc := (metadata_wc ctx)\<lparr>windowSize_wc := length (drop ?k (contents ctx))\<rparr> \<rparr>"
      by (simp add: truncateToFit_over [OF over])
    show "tokensOf (drop ?k (contents ctx)) \<le> ?a" if "?k < length (contents ctx)"
      by (rule dropped_props(2) [OF that])
    show "?a < tokensOf (drop j (contents ctx))" if "j < ?k" for j
      by (rule dropped_props(3) [OF that])
  qed
qed

text \<open>
  Claim C4. \<^verbatim>\<open>truncateToFit\<close> leaves the context as it is when the estimated token count
  is at most \<^verbatim>\<open>availableForHistory\<close>. Otherwise it replaces the contents by a contiguous
  suffix \<open>drop k\<close> of them and records the length of that suffix in
  \<^verbatim>\<open>metadata.windowSize\<close>, every other part of the context unchanged; the suffix is the
  one the backward walk keeps: when it is not empty, its cost (each content counting
  \<open>ceiling(length/4)\<close>) is within \<^verbatim>\<open>availableForHistory\<close> minus the cost of the system
  instructions and the identity (a quarter of the length of the instructions joined by
  newlines, plus a quarter of the length of the identity's JSON text when there is an
  identity), and every longer suffix exceeds that budget, so the walk stopped at the first
  content that did not fit and nothing older is kept.
\<close>

theorem truncateToFit_suffix:
  "(of_int (estimateTokenCount ctx) \<le> availableForHistory config \<longrightarrow>
      truncateToFit config ctx = ctx) \<and>
   (\<not> of_int (estimateTokenCount ctx) \<le> availableForHistory config \<longrightarrow>
      (\<exists>k \<le> length (contents ctx).
         truncateToFit config ctx =
           ctx\<lparr> contents := drop k (contents ctx),
                metadata_wc := (metadata_wc ctx)\<lparr>windowSize_wc := length (drop k (contents ctx))\<rparr> \<rparr> \<and>
         (k < length (contents ctx) \<longrightarrow>
            tokensOf (drop k (contents ctx))
              \<le> availableForHistory config
                  - (of_nat (length (join newline (systemInstructions ctx))) / 4
                     + (case agentIdentity ctx of
                          None \<Rightarrow> 0
                        | Some i \<Rightarrow> of_nat (length (json_text (identity_json i))) / 4))) \<and>
         (\<forall>j < k.
            availableForHistory config
              - (of_nat (length (join newline (systemInstructions ctx))) / 4
                 + (case agentIdentity ctx of
                      None \<Rightarrow> 0
                    | Some i \<Rightarrow> of_nat (length (json_text (identity_json i))) / 4))
            < tokensOf (drop j (contents ctx)))))"
proof (intro conjI impI)
  assume "of_int (estimateTokenCount ctx) \<le> availableForHistory config"
  then show "truncateToFit config ctx = ctx" by (simp add: truncateToFit_def)
next
  assume over: "\<not> of_int (estimateTokenCount ctx) \<le> availableForHistory config"
  have cost: "systemTokens ctx =
      of_nat (length (join newline (systemInstructions ctx))) / 4
      + (case agentIdentity ctx of
           None \<Rightarrow> 0
         | Some i \<Rightarrow> of_nat (length (json_text (identity_json i))) / 4)"
    by (simp add: systemTokens_def split: option.splits)
  from truncateToFit_walk [OF over]
  show "\<exists>k \<le> length (contents ctx).
         truncateToFit config ctx =
           ctx\<lparr> contents := drop k (contents ctx),
                metadata_wc := (metadata_wc ctx)\<lparr>windowSize_wc := length (drop k (contents ctx))\<rparr> \<rparr> \<and>
         (k < length (contents ctx) \<longrightarrow>
            tokensOf (drop k (contents ctx))
              \<le> availableForHistory config
                  - (of_nat (length (join newline (systemInstructions ctx))) / 4
                     + (case agentIdentity ctx of
                          None \<Rightarrow> 0
                        | Some i \<Rightarrow> of_nat (length (json_text (identity_json i))) / 4))) \<and>
         (\<forall>j < k.
            availableForHistory config
              - (of_nat (length (join newline (systemInstructions ctx))) / 4
                 + (case agentIdentity ctx of
                      None \<Rightarrow> 0
                    | Some i \<Rightarrow> of_nat (length (json_text (identity_json i))) / 4))
            < tokensOf (drop j (contents ctx)))"
    by (simp only: cost)
qed

text \<open>With a budget of 5 and neither instructions nor identity the walk keeps the most
  recent content (cost 1) and stops at the large one (cost 10); the oldest content (cost
  1) is dropped although it would have fit. With a budget of 11 nothing changes.

  With one instruction of 6 characters (cost 1.5) and an identity of 41 characters (cost
  10.25) the estimate is \<open>ceiling(54/4) = 14\<close>; a budget of 13 leaves 1.25 for the
  contents, so only the most recent one (cost 1) is kept, although all three (cost 3)
  are within the 13, within the 11.5 left by the instruction alone and (the last two)
  within the 2.75 left by the identity alone.\<close>

theorem truncateToFit_suffix_witness:
  "truncateToFit (budget 11) crowded = crowded \<and>
   \<not> of_int (estimateTokenCount crowded) \<le> availableForHistory (budget 5) \<and>
   contents (truncateToFit (budget 5) crowded) = drop 2 (contents crowded) \<and>
   contents (truncateToFit (budget 5) crowded) = [plainContent ''bb''] \<and>
   windowSize_wc (metadata_wc (truncateToFit (budget 5) crowded)) = 1 \<and>
   tokensOf (drop 2 (contents crowded)) = 1 \<and>
   tokensOf (drop 1 (contents crowded)) = 11 \<and>
   tokensOf (drop 0 (contents crowded)) = 12 \<and>
   estimateTokenCount instructed = 14 \<and>
   length (join newline (systemInstructions instructed)) = 6 \<and>
   length (json_text (identity_json guide)) = 41 \<and>
   contents (truncateToFit (budget 13) instructed) = drop 2 (contents instructed) \<and>
   contents (truncateToFit (budget 13) instructed) = [plainContent ''cc''] \<and>
   windowSize_wc (metadata_wc (truncateToFit (budget 13) instructed)) = 1 \<and>
   tokensOf (drop 2 (contents instructed)) = 1 \<and>
   tokensOf (drop 1 (contents instructed)) = 2 \<and>
   tokensOf (drop 0 (contents instructed)) = 3"
proof -
  have fits: "of_int (estimateTokenCount crowded) \<le> availableForHistory (budget 11)"
    by (simp add: crowded_estimate budget_def)
  from truncateToFit_suffix [of crowded "budget 11"] fits
  have "truncateToFit (budget 11) crowded = crowded" by blast
  moreover have "\<not> of_int (estimateTokenCount crowded) \<le> availableForHistory (budget 5)"
    by (simp add: crowded_estimate budget_def)
  moreover note crowded_contents
  moreover have "tokensOf [plainContent ''bb''] = 1"
    "tokensOf [plainContent ''0123456789012345678901234567890123456789'', plainContent ''bb''] = 11"
    "tokensOf [plainContent ''a'', plainContent ''0123456789012345678901234567890123456789'',
       plainContent ''bb''] = 12"
    by (simp_all add: tokensOf_def plain_tokens)
  moreover have "tokensOf [plainContent ''cc''] = 1"
    "tokensOf [plainContent ''bbbb'', plainContent ''cc''] = 2"
    "tokensOf [plainContent ''a'', plainContent ''bbbb'', plainContent ''cc''] = 3"
    by (simp_all add: tokensOf_def short_tokens)
  ultimately show ?thesis
    by (simp add: crowded_truncated instructed_truncated instructed_estimate instructed_parts
        guide_length newline_def numeral_2_eq_2)
qed

text \<open>
  Claim C5. \<^verbatim>\<open>truncateToFit\<close> is idempotent: applied twice with the same configuration it
  yields the same contents list as applied once (and the same context).
\<close>

theorem truncateToFit_idempotent:
  "contents (truncateToFit config (truncateToFit config ctx)) = contents (truncateToFit config ctx) \<and>
   truncateToFit config (truncateToFit config ctx) = truncateToFit config ctx"
proof (cases "of_int (estimateTokenCount ctx) \<le> availableForHistory config")
  case True
  then show ?thesis by (simp add: truncateToFit_def)
next
  case False
  let ?a = "availableForHistory config - systemTokens ctx"
  let ?K = "keepLoop ?a (contents ctx) (length (contents ctx)) 0 []"
  let ?ctx' = "ctx\<lparr> contents := ?K, metadata_wc := (metadata_wc ctx)\<lparr>windowSize_wc := length ?K\<rparr> \<rparr>"
  from False have first: "truncateToFit config ctx = ?ctx'"
    by (simp add: truncateToFit_def Let_def)
  have "truncateToFit config ?ctx' = ?ctx'"
  proof (cases "of_int (estimateTokenCount ?ctx') \<le> availableForHistory config")
    case True
    then show ?thesis by (simp add: truncateToFit_def)
  next
    case False
    then show ?thesis
      by (simp add: truncateToFit_def Let_def keepLoop_idem systemTokens_contents)
  qed
  with first show ?thesis by simp
qed

theorem truncateToFit_idempotent_witness:
  "contents (truncateToFit (budget 5) (truncateToFit (budget 5) crowded)) = [plainContent ''bb'']"
  using truncateToFit_idempotent [of "budget 5" crowded]
  by (simp add: crowded_truncated)


section \<open>The compaction filter\<close>

lemma projectEvents_eq:
  "projectEvents incl es ctx =
     ctx\<lparr>contents := contents ctx @ List.map_filter (eventContent incl) es\<rparr>"
  by (induction es arbitrary: ctx)
    (auto simp: List.map_filter_simps addContent_def split: option.splits)

lemma eventContent_id: "eventContent incl e = Some x \<Longrightarrow> contentEventId x = Some (id_e (base e))"
  by (cases e) (auto simp: contentEventId_def split: if_splits)

lemma eventContent_system:
  "eventContent incl e = Some x \<Longrightarrow> action e = COMPACTION \<Longrightarrow>
     role x = role_system \<and> content_c x = ''[Conversation Summary]: '' @ summary e"
  by (cases e) (auto split: if_splits)

lemma eventContent_compaction: "action e = COMPACTION \<Longrightarrow> \<exists>x. eventContent incl e = Some x"
  by (cases e) auto

lemma foldl_set_add:
  "distinct acc \<Longrightarrow> distinct (foldl (\<lambda>a i. set_add i a) acc ids) \<and>
     set (foldl (\<lambda>a i. set_add i a) acc ids) = set acc \<union> set ids"
  by (induction ids arbitrary: acc) (auto simp: set_add_def)

lemma collectIds_set:
  "distinct acc \<Longrightarrow> distinct (collectIds es acc) \<and>
     set (collectIds es acc) = set acc \<union> (\<Union>e \<in> set es. set (compactedEventIds e))"
proof (induction es arbitrary: acc)
  case Nil
  then show ?case by simp
next
  case (Cons e es)
  from foldl_set_add [OF Cons.prems, of "compactedEventIds e"]
  have d: "distinct (foldl (\<lambda>a i. set_add i a) acc (compactedEventIds e))"
    and s: "set (foldl (\<lambda>a i. set_add i a) acc (compactedEventIds e)) =
              set acc \<union> set (compactedEventIds e)"
    by simp_all
  from Cons.IH [OF d] s show ?case by auto
qed

lemma collectIds_referenced:
  "set (collectIds (filter (\<lambda>e. action e = COMPACTION) (events s)) []) = referencedIds s"
  "length (collectIds (filter (\<lambda>e. action e = COMPACTION) (events s)) []) = card (referencedIds s)"
proof -
  have a: "distinct (collectIds (filter (\<lambda>e. action e = COMPACTION) (events s)) [])"
    and b: "set (collectIds (filter (\<lambda>e. action e = COMPACTION) (events s)) []) = referencedIds s"
    using collectIds_set [of "[]" "filter (\<lambda>e. action e = COMPACTION) (events s)"]
    by (auto simp: referencedIds_def)
  show "set (collectIds (filter (\<lambda>e. action e = COMPACTION) (events s)) []) = referencedIds s"
    by (rule b)
  show "length (collectIds (filter (\<lambda>e. action e = COMPACTION) (events s)) []) = card (referencedIds s)"
    using a b distinct_card by metis
qed

lemma compactionFilter_unfold:
  "compactionFilterRequestProcessor s ctx keepSummariesConfig =
     ctx\<lparr> contents := contents ctx @
             List.map_filter (eventContent True)
               (filter (\<lambda>e. id_e (base e) \<notin> referencedIds s \<or> action e = COMPACTION) (events s)),
          metadata_wc := (metadata_wc ctx)
             \<lparr> compactedEvents := card (referencedIds s),
               windowSize_wc := length (contents ctx) +
                  length (List.map_filter (eventContent True)
                    (filter (\<lambda>e. id_e (base e) \<notin> referencedIds s \<or> action e = COMPACTION)
                       (events s))) \<rparr> \<rparr>"
  by (simp add: compactionFilterRequestProcessor_def keepSummariesConfig_def
      contentsRequestProcessor_def Let_def projectEvents_eq collectIds_referenced)

lemma referencedIds_collect:
  "referencedIds s = set (collectIds (filter (\<lambda>e. action e = COMPACTION) (events s)) [])"
  by (simp add: collectIds_referenced)

lemma conversation_referenced: "referencedIds conversation = {''e1'', ''e3''}"
  by (simp add: referencedIds_collect conversation_events sample_actions sample_compacted
      set_add_def)

lemma resummarised_referenced: "referencedIds resummarised = {''e1'', ''e3'', ''c1''}"
  by (simp add: referencedIds_collect resummarised_events sample_actions sample_compacted
      set_add_def)

lemma conversation_kept:
  "filter (\<lambda>e. id_e (base e) \<notin> referencedIds conversation \<or> action e = COMPACTION)
     (events conversation) = [agentHi, resultFound, userThanks, summaryFirst]"
  by (simp add: conversation_events conversation_referenced sample_actions sample_ids)

lemma resummarised_kept:
  "filter (\<lambda>e. id_e (base e) \<notin> referencedIds resummarised \<or> action e = COMPACTION)
     (events resummarised) = [summaryFirst, summarySecond]"
  by (simp add: resummarised_events sample_actions)

lemma sample_contents:
  "eventContent True agentHi =
     Some \<lparr> role = role_assistant, content_c = ''hi there'', name_c = None, tool_call_id = None,
            metadata_c = Some [(''eventId'', JStr ''e2''), (''timestamp'', JNum 2),
                               (''modelUsed'', JStr ''llama''), (''gatewayLogId'', JUndefined)] \<rparr>"
  "eventContent True resultFound =
     Some \<lparr> role = role_tool, content_c = ''found'', name_c = Some ''search'',
            tool_call_id = Some ''call1'',
            metadata_c = Some [(''eventId'', JStr ''e4''), (''timestamp'', JNum 4),
                               (''isSuccess'', JBool True)] \<rparr>"
  "eventContent True userThanks =
     Some \<lparr> role = role_user, content_c = ''thanks'', name_c = None, tool_call_id = None,
            metadata_c = Some [(''eventId'', JStr ''e5''), (''timestamp'', JNum 5)] \<rparr>"
  "eventContent True summaryFirst =
     Some \<lparr> role = role_system, content_c = ''[Conversation Summary]: greeting and search'',
            name_c = None, tool_call_id = None,
            metadata_c = Some [(''eventId'', JStr ''c1''), (''timestamp'', JNum 6),
                               (''compactedEventIds'', JArr [JStr ''e1'', JStr ''e3''])] \<rparr>"
  "eventContent True summarySecond =
     Some \<lparr> role = role_system, content_c = ''[Conversation Summary]: all so far'',
            name_c = None, tool_call_id = None,
            metadata_c = Some [(''eventId'', JStr ''c2''), (''timestamp'', JNum 7),
                               (''compactedEventIds'', JArr [JStr ''c1'', JStr ''e3''])] \<rparr>"
  by (simp_all add: agentHi_def resultFound_def userThanks_def summaryFirst_def summarySecond_def)

lemma contentEventId_eval:
  "contentEventId \<lparr> role = r, content_c = t, name_c = n, tool_call_id = i,
                    metadata_c = Some ((''eventId'', JStr e) # ps) \<rparr> = Some e"
  by (simp add: contentEventId_def)

text \<open>The claim as stated fails when a referenced event is itself a compaction event: the
  second summary references the first one (\<open>c1\<close>) and \<open>e3\<close>, and the content projected
  from \<open>c1\<close> is still in the context.\<close>

theorem compactionFilter_keeps_compacted_summary:
  "summarySecond \<in> set (events resummarised) \<and> action summarySecond = COMPACTION \<and>
   compactedEventIds summarySecond = [''c1'', ''e3''] \<and>
   map contentEventId
     (contents (compactionFilterRequestProcessor resummarised emptyContext keepSummariesConfig)) =
     [Some ''c1'', Some ''c2'']"
  by (simp only: compactionFilter_unfold resummarised_kept)
    (simp add: resummarised_events sample_actions sample_compacted emptyContext_def
      WorkingContext_new_def List.map_filter_simps sample_contents contentEventId_eval)

text \<open>
  Claim C6, as amended. For every session containing a compaction event whose
  \<^verbatim>\<open>compactedEventIds\<close> reference \<open>e1\<close> and \<open>e3\<close>, the compaction filter with
  \<^verbatim>\<open>keepCompactionSummaries = true\<close> appends projected contents to the context such that no
  content derived from an event with id \<open>e1\<close> or \<open>e3\<close> that is not itself a compaction
  event is among them (a projected content with one of these ids is the summary of a
  compaction event of the log, which the filter keeps), a system-role content with the
  text of the compaction event's summary is among them, and \<^verbatim>\<open>metadata.compactedEvents\<close>
  is the number of distinct compacted event ids.
\<close>

theorem compactionFilter_projection:
  assumes "c \<in> set (events s)" and "action c = COMPACTION"
    and "e1 \<in> set (compactedEventIds c)" and "e3 \<in> set (compactedEventIds c)"
  shows "\<exists>projected.
           contents (compactionFilterRequestProcessor s ctx keepSummariesConfig) =
             contents ctx @ projected \<and>
           (\<forall>e \<in> set (events s). \<forall>x. action e \<noteq> COMPACTION \<and> id_e (base e) \<in> {e1, e3} \<and>
              eventContent True e = Some x \<longrightarrow> x \<notin> set projected) \<and>
           (\<forall>x \<in> set projected. \<forall>i \<in> {e1, e3}. contentEventId x = Some i \<longrightarrow>
              (\<exists>k \<in> set (events s). action k = COMPACTION \<and> id_e (base k) = i \<and>
                 eventContent True k = Some x)) \<and>
           (\<exists>x \<in> set projected. role x = role_system \<and>
              content_c x = ''[Conversation Summary]: '' @ summary c) \<and>
           compactedEvents (metadata_wc (compactionFilterRequestProcessor s ctx keepSummariesConfig)) =
             card (referencedIds s)"
proof -
  let ?kept = "filter (\<lambda>e. id_e (base e) \<notin> referencedIds s \<or> action e = COMPACTION) (events s)"
  let ?projected = "List.map_filter (eventContent True) ?kept"
  have ref: "e1 \<in> referencedIds s" "e3 \<in> referencedIds s"
    using assms by (auto simp: referencedIds_def)
  have origin: "\<exists>e \<in> set ?kept. eventContent True e = Some x" if "x \<in> set ?projected" for x
    using that by (auto simp: List.map_filter_def)
  have a: "\<exists>k \<in> set (events s). action k = COMPACTION \<and> id_e (base k) = i \<and> eventContent True k = Some x"
    if "x \<in> set ?projected" "i \<in> {e1, e3}" "contentEventId x = Some i" for x i
  proof -
    from origin [OF that(1)] obtain e where e: "e \<in> set ?kept" "eventContent True e = Some x"
      by blast
    from eventContent_id [OF e(2)] that(3) have "id_e (base e) = i" by simp
    with that(2) ref have "id_e (base e) \<in> referencedIds s" by auto
    with e(1) have "action e = COMPACTION" "e \<in> set (events s)" by auto
    with e(2) \<open>id_e (base e) = i\<close> show ?thesis by blast
  qed
  have b: "x \<notin> set ?projected"
    if "e \<in> set (events s)" "action e \<noteq> COMPACTION" "id_e (base e) \<in> {e1, e3}"
      "eventContent True e = Some x" for e x
  proof
    assume "x \<in> set ?projected"
    from origin [OF this] obtain k where k: "k \<in> set ?kept" "eventContent True k = Some x"
      by blast
    from eventContent_id [OF k(2)] eventContent_id [OF that(4)]
    have same: "id_e (base k) = id_e (base e)" by simp
    with that(3) ref have "id_e (base k) \<in> referencedIds s" by auto
    with k(1) have kc: "action k = COMPACTION" by auto
    from eventContent_system [OF k(2) kc] have "role x = role_system" by simp
    moreover from that(2,4) have "role x \<noteq> role_system" by (cases e) (auto split: if_splits)
    ultimately show False by simp
  qed
  have c: "\<exists>x \<in> set ?projected. role x = role_system \<and>
             content_c x = ''[Conversation Summary]: '' @ summary c"
  proof -
    from eventContent_compaction [OF assms(2)] obtain x where x: "eventContent True c = Some x"
      by blast
    from assms(1,2) have "c \<in> set ?kept" by simp
    with x have "x \<in> set ?projected" by (force simp: List.map_filter_def)
    with eventContent_system [OF x assms(2)] show ?thesis by blast
  qed
  show ?thesis
    apply (rule exI [where x = ?projected])
    apply (intro conjI)
        apply (simp add: compactionFilter_unfold)
    using b apply blast
    using a apply blast
    using c apply blast
    apply (simp add: compactionFilter_unfold)
    done
qed

text \<open>In the sample conversation the summary references \<open>e1\<close> (the first user message) and
  \<open>e3\<close> (the tool call): the contents are projected from \<open>e2\<close>, \<open>e4\<close>, \<open>e5\<close> and the
  summary itself.\<close>

theorem compactionFilter_projection_witness:
  "map contentEventId
     (contents (compactionFilterRequestProcessor conversation emptyContext keepSummariesConfig)) =
     [Some ''e2'', Some ''e4'', Some ''e5'', Some ''c1''] \<and>
   map role
     (contents (compactionFilterRequestProcessor conversation emptyContext keepSummariesConfig)) =
     [role_assistant, role_tool, role_user, role_system] \<and>
   content_c
     (last (contents (compactionFilterRequestProcessor conversation emptyContext keepSummariesConfig))) =
     ''[Conversation Summary]: greeting and search'' \<and>
   compactedEvents
     (metadata_wc (compactionFilterRequestProcessor conversation emptyContext keepSummariesConfig)) = 2"
proof -
  have prems: "summaryFirst \<in> set (events conversation)" "action summaryFirst = COMPACTION"
    "''e1'' \<in> set (compactedEventIds summaryFirst)" "''e3'' \<in> set (compactedEventIds summaryFirst)"
    by (simp_all add: conversation_events sample_actions sample_compacted)
  from compactionFilter_projection [OF prems, of emptyContext] obtain projected where
    "compactedEvents
       (metadata_wc (compactionFilterRequestProcessor conversation emptyContext keepSummariesConfig)) =
       card (referencedIds conversation)"
    by blast
  then have count: "compactedEvents
       (metadata_wc (compactionFilterRequestProcessor conversation emptyContext keepSummariesConfig)) = 2"
    by (simp add: conversation_referenced)
  have "contents (compactionFilterRequestProcessor conversation emptyContext keepSummariesConfig) =
      [the (eventContent True agentHi), the (eventContent True resultFound),
       the (eventContent True userThanks), the (eventContent True summaryFirst)]"
    by (simp only: compactionFilter_unfold conversation_kept)
      (simp add: emptyContext_def WorkingContext_new_def List.map_filter_simps sample_contents)
  with count show ?thesis
    by (simp add: sample_contents contentEventId_eval)
qed

section \<open>Conversation turns\<close>

lemma turnsLoop_users:
  "map user (flush (turnsLoop es turns cur)) =
     map user (flush (turns, cur)) @ filter (\<lambda>e. action e = USER_MESSAGE) es"
  by (induction es arbitrary: turns cur) (auto simp: flush_def split: option.splits)

lemma turnsLoop_prefix:
  "\<forall>e \<in> set pre. action e \<noteq> USER_MESSAGE \<Longrightarrow>
     turnsLoop (pre @ es) turns None = turnsLoop es turns None"
  by (induction pre) auto

text \<open>
  Claim C7. On the events \<open>[user u1, agent a1, toolCall t1, toolResult r1, user u2]\<close>
  \<^verbatim>\<open>getConversationTurns()\<close> returns exactly two turns: the first with user \<open>u1\<close>, agent
  \<open>a1\<close> and tools \<open>[t1, r1]\<close> in encounter order, the second with user \<open>u2\<close>, no agent
  and no tools. In general the events before the first user message are dropped from the
  grouping (a log gives the turns of the log without them), and the turn in progress is
  flushed at the end of the scan: the turns are, in order, one for each user message of
  the log.
\<close>

theorem getConversationTurns_scan:
  assumes "action u1 = USER_MESSAGE" "action a1 = AGENT_MESSAGE" "action t1 = TOOL_CALL"
    "action r1 = TOOL_RESULT" "action u2 = USER_MESSAGE"
    and "\<forall>e \<in> set pre. action e \<noteq> USER_MESSAGE"
  shows "getConversationTurns (s\<lparr>events := [u1, a1, t1, r1, u2]\<rparr>) =
           [\<lparr>user = u1, agent = Some a1, tools = [t1, r1]\<rparr>,
            \<lparr>user = u2, agent = None, tools = []\<rparr>] \<and>
         getConversationTurns (s\<lparr>events := pre @ es\<rparr>) = getConversationTurns (s\<lparr>events := es\<rparr>) \<and>
         map user (getConversationTurns (s\<lparr>events := es\<rparr>)) =
           filter (\<lambda>e. action e = USER_MESSAGE) es"
proof (intro conjI)
  show "getConversationTurns (s\<lparr>events := [u1, a1, t1, r1, u2]\<rparr>) =
           [\<lparr>user = u1, agent = Some a1, tools = [t1, r1]\<rparr>,
            \<lparr>user = u2, agent = None, tools = []\<rparr>]"
    using assms(1-5) by (simp add: getConversationTurns_def)
  show "getConversationTurns (s\<lparr>events := pre @ es\<rparr>) = getConversationTurns (s\<lparr>events := es\<rparr>)"
    using turnsLoop_prefix [OF assms(6)] by (simp add: getConversationTurns_def)
  show "map user (getConversationTurns (s\<lparr>events := es\<rparr>)) =
          filter (\<lambda>e. action e = USER_MESSAGE) es"
    using turnsLoop_users [of es "[]" None] by (simp add: getConversationTurns_def flush_def)
qed

theorem getConversationTurns_scan_witness:
  "getConversationTurns
     (conversation\<lparr>events := [userHello, agentHi, callSearch, resultFound, userThanks]\<rparr>) =
     [\<lparr>user = userHello, agent = Some agentHi, tools = [callSearch, resultFound]\<rparr>,
      \<lparr>user = userThanks, agent = None, tools = []\<rparr>] \<and>
   getConversationTurns (conversation\<lparr>events := [agentHi, summaryFirst] @ [userThanks, agentHi]\<rparr>) =
     getConversationTurns (conversation\<lparr>events := [userThanks, agentHi]\<rparr>) \<and>
   map user (getConversationTurns (conversation\<lparr>events := [userThanks, agentHi]\<rparr>)) = [userThanks]"
proof -
  have pre: "\<forall>e \<in> set [agentHi, summaryFirst]. action e \<noteq> USER_MESSAGE"
    by (simp add: sample_actions)
  from getConversationTurns_scan
    [OF sample_actions(1) sample_actions(2) sample_actions(3) sample_actions(4) sample_actions(5) pre,
      of conversation "[userThanks, agentHi]"]
  show ?thesis by (simp add: sample_actions)
qed

section \<open>Model formats\<close>

text \<open>
  Claim C8. \<^verbatim>\<open>toModelFormat\<close> called with a model type other than \<^verbatim>\<open>"workers-ai"\<close> throws
  and returns no result. Called for \<^verbatim>\<open>"workers-ai"\<close> (given or by default) with any
  \<^verbatim>\<open>options.format\<close> other than \<^verbatim>\<open>"responses"\<close> (\<^verbatim>\<open>"native"\<close>, a missing format or missing
  options included) it returns the chat-style shape: a system message followed by one
  message for each content.
\<close>

theorem toModelFormat_unsupported_and_chat:
  "(\<forall>m. modelType = Some m \<and> m \<noteq> ''workers-ai'' \<longrightarrow>
        toModelFormat modelType options ctx = Inl (Error (''Unsupported model type: '' @ m))) \<and>
   ((modelType = None \<or> modelType = Some ''workers-ai'') \<and>
    (case options of None \<Rightarrow> None | Some opts \<Rightarrow> format opts) \<noteq> Some ''responses'' \<longrightarrow>
      (\<exists>u. toModelFormat modelType options ctx =
         Inr (ChatFormat
                (\<lparr> role_m = ''system'', content_m = systemContent ctx, name_m = None,
                   tool_call_id_m = None \<rparr>
                 # map (chatMessage u) (contents ctx)))))"
  apply (intro conjI allI impI)
   apply (simp add: toModelFormat_def)
  apply (cases "truthy (case options of None \<Rightarrow> None | Some opts \<Rightarrow> format opts)")
   apply (auto simp: toModelFormat_def toWorkersAIFormat_def Let_def truthy_def
      split: option.splits if_splits)
  done

theorem toModelFormat_unsupported_and_chat_witness:
  "toModelFormat (Some ''openai'') None crowded = Inl (Error ''Unsupported model type: openai'') \<and>
   toModelFormat None (Some \<lparr> format = Some ''native'', model = None \<rparr>) crowded =
     Inr (ChatFormat
            [\<lparr> role_m = ''system'', content_m = [], name_m = None, tool_call_id_m = None \<rparr>,
             \<lparr> role_m = ''user'', content_m = ''a'', name_m = None, tool_call_id_m = None \<rparr>,
             \<lparr> role_m = ''user'', content_m = ''0123456789012345678901234567890123456789'',
               name_m = None, tool_call_id_m = None \<rparr>,
             \<lparr> role_m = ''user'', content_m = ''bb'', name_m = None, tool_call_id_m = None \<rparr>])"
proof -
  from toModelFormat_unsupported_and_chat [of "Some ''openai''" None crowded]
  have "toModelFormat (Some ''openai'') None crowded = Inl (Error ''Unsupported model type: openai'')"
    by simp
  moreover
  from toModelFormat_unsupported_and_chat
    [of None "Some \<lparr> format = Some ''native'', model = None \<rparr>" crowded]
  obtain u where
    "toModelFormat None (Some \<lparr> format = Some ''native'', model = None \<rparr>) crowded =
       Inr (ChatFormat
              (\<lparr> role_m = ''system'', content_m = systemContent crowded, name_m = None,
                 tool_call_id_m = None \<rparr>
               # map (chatMessage u) (contents crowded)))"
    by auto
  ultimately show ?thesis
    by (simp add: crowded_def emptyContext_def WorkingContext_new_def systemContent_def
        chatMessage_def plainContent_def truthy_def)
qed

section \<open>The last events of the log\<close>

lemma slice_from_neg:
  "0 < n \<Longrightarrow> slice_from (- n) xs = drop (length xs - nat (min n (int (length xs)))) xs"
  by (auto simp: slice_from_def Let_def max_def min_def intro!: arg_cong2 [where f = drop])

text \<open>
  Claim C9. \<^verbatim>\<open>getLastNEvents(0)\<close> returns the whole log, not the empty list (the slice
  starts at \<open>-0\<close>, that is at \<open>0\<close>); for \<open>n > 0\<close> it returns the last
  \<open>min(n, number of events)\<close> events of the log, in order.
\<close>

theorem getLastNEvents_suffix:
  "getLastNEvents 0 s = events s \<and>
   (0 < n \<longrightarrow>
      getLastNEvents n s =
        drop (length (events s) - nat (min n (int (length (events s))))) (events s) \<and>
      int (length (getLastNEvents n s)) = min n (int (length (events s))))"
  by (auto simp: getLastNEvents_def slice_from_neg) (simp_all add: slice_from_def)

theorem getLastNEvents_suffix_witness:
  "getLastNEvents 0 conversation =
     [userHello, agentHi, callSearch, resultFound, userThanks, summaryFirst] \<and>
   getLastNEvents 2 conversation = [userThanks, summaryFirst] \<and>
   getLastNEvents 9 conversation =
     [userHello, agentHi, callSearch, resultFound, userThanks, summaryFirst]"
  using getLastNEvents_suffix [of conversation 2] getLastNEvents_suffix [of conversation 9]
  by (simp add: conversation_events)

section \<open>The running average of the response time\<close>

text \<open>
  Claim C10. \<^verbatim>\<open>statisticsResponseProcessor\<close> returns the session unchanged when the
  response has no \<^verbatim>\<open>metadata.responseTimeMs\<close> or when the sample is \<open>0\<close>; for a sample
  that is not \<open>0\<close> only \<^verbatim>\<open>averageResponseTimeMs\<close> changes, to
  \<open>(oldAvg * totalAgentMessages + sample) / (totalAgentMessages + 1)\<close>.
\<close>

theorem statisticsResponseProcessor_average:
  "(metadata_r response = None \<longrightarrow> statisticsResponseProcessor s response ctx = s) \<and>
   (\<forall>m. metadata_r response = Some m \<and> (responseTimeMs m = None \<or> responseTimeMs m = Some 0) \<longrightarrow>
        statisticsResponseProcessor s response ctx = s) \<and>
   (\<forall>m x. metadata_r response = Some m \<and> responseTimeMs m = Some x \<and> x \<noteq> 0 \<longrightarrow>
        statisticsResponseProcessor s response ctx =
          s\<lparr>statistics := (statistics s)
              \<lparr>averageResponseTimeMs :=
                 (averageResponseTimeMs (statistics s) * of_nat (totalAgentMessages (statistics s)) + x)
                 / (of_nat (totalAgentMessages (statistics s)) + 1)\<rparr>\<rparr>)"
  by (auto simp: statisticsResponseProcessor_def Let_def)

lemma conversation_average:
  "averageResponseTimeMs (statistics conversation) = 0"
  "totalAgentMessages (statistics conversation) = 1"
  by (simp_all add: conversation_def addEvent_def Session_new_def userHello_def agentHi_def
      callSearch_def resultFound_def userThanks_def summaryFirst_def)

theorem statisticsResponseProcessor_average_witness:
  "statisticsResponseProcessor conversation \<lparr> metadata_r = None \<rparr> emptyContext = conversation \<and>
   statisticsResponseProcessor conversation
     \<lparr> metadata_r = Some \<lparr> responseTimeMs = Some 0 \<rparr> \<rparr> emptyContext = conversation \<and>
   statisticsResponseProcessor conversation
     \<lparr> metadata_r = Some \<lparr> responseTimeMs = Some 100 \<rparr> \<rparr> emptyContext =
     conversation\<lparr>statistics := (statistics conversation)\<lparr>averageResponseTimeMs := 50\<rparr>\<rparr>"
  using statisticsResponseProcessor_average [of "\<lparr> metadata_r = None \<rparr>" conversation emptyContext]
    statisticsResponseProcessor_average
      [of "\<lparr> metadata_r = Some \<lparr> responseTimeMs = Some 0 \<rparr> \<rparr>" conversation emptyContext]
    statisticsResponseProcessor_average
      [of "\<lparr> metadata_r = Some \<lparr> responseTimeMs = Some 100 \<rparr> \<rparr>" conversation emptyContext]
  by (simp add: conversation_average)

end
